theory Spec2Isabelle
  imports Main "HOL-Library.Log_Nat"
begin

section \<open>The sprite-atlas offset corrector (fix_padding.py)\<close>

text \<open>
  The script loads \<^verbatim>\<open>collectables.json\<close>, adds \<^verbatim>\<open>OFFSET\<close> to the
  \<^verbatim>\<open>x\<close> and \<^verbatim>\<open>y\<close> of every frame, dumps the document to
  \<^verbatim>\<open>collectables_padded.json\<close> and prints one line.  The embedding follows the
  script statement by statement: the decoded document is a tree of Python values, every
  raise of the interpreter is a branch returning \<open>Inl\<close>, and the file system and the
  console are fields of an explicit world record.
\<close>

subsection \<open>Python values as decoded by the json module\<close>

text \<open>
  A Python float is an IEEE 754 binary64 number.  A finite one is \<open>Fin m e\<close>, standing
  for \<open>m * 2 ^ e\<close>, kept with an odd mantissa (zero is \<open>Fin 0 0\<close>); the other
  constructors are negative zero, the two infinities and not-a-number.
\<close>

datatype pyfloat = Fin int int | NegZero | PosInf | NegInf | NaN

text \<open>
  What \<^verbatim>\<open>json.load\<close> builds: \<^verbatim>\<open>None\<close>, \<^verbatim>\<open>bool\<close>,
  \<^verbatim>\<open>int\<close> (unbounded), \<^verbatim>\<open>float\<close>, \<^verbatim>\<open>str\<close>, \<^verbatim>\<open>list\<close> and
  \<^verbatim>\<open>dict\<close>.  A dict keeps its insertion order, so it is an association list; the
  decoder never builds one with a repeated key.
\<close>

datatype json =
    JNull
  | JBool bool
  | JInt int
  | JFloat pyfloat
  | JStr string
  | JList "json list"
  | JDict "(string \<times> json) list"

datatype pyerr =
    FileNotFoundError
  | JSONDecodeError
  | UnicodeDecodeError
  | KeyError string
  | TypeError
  | AttributeError
  | OverflowError

subsection \<open>Float arithmetic\<close>

text \<open>Drop the trailing zero bits of a mantissa, so that equal floats are equal terms.\<close>

function strip_zeros :: "int \<Rightarrow> int \<Rightarrow> pyfloat" where
  "strip_zeros m e =
     (if m = 0 then Fin 0 0
      else if even m then strip_zeros (m div 2) (e + 1)
      else Fin m e)"
  by pat_completeness auto
termination
  by (relation "measure (\<lambda>(m, e). nat \<bar>m\<bar>)") auto

text \<open>
  Round the exact value \<open>M * 2 ^ E\<close> to the nearest binary64 number, ties to the even
  mantissa, overflowing to an infinity.  It is used on sums of floats only, where
  \<open>E\<close> is at least the least exponent \<open>-1074\<close>, so that no result is rounded below
  53 bits.
\<close>

definition round_double :: "int \<Rightarrow> int \<Rightarrow> pyfloat" where
  "round_double M E =
     (let a = \<bar>M\<bar>;
          k = (if 53 < bitlen a then nat (bitlen a - 53) else 0);
          q = a div 2 ^ k;
          r = a mod 2 ^ k;
          q' = (if 2 ^ k < 2 * r \<or> (2 * r = 2 ^ k \<and> odd q) then q + 1 else q)
      in if 1024 < bitlen q' + (E + int k)
         then (if 0 < M then PosInf else NegInf)
         else strip_zeros (sgn M * q') (E + int k))"

text \<open>\<^verbatim>\<open>a + b\<close> on two floats.\<close>

fun float_add :: "pyfloat \<Rightarrow> pyfloat \<Rightarrow> pyfloat" where
  "float_add NaN _ = NaN"
| "float_add _ NaN = NaN"
| "float_add PosInf NegInf = NaN"
| "float_add NegInf PosInf = NaN"
| "float_add PosInf _ = PosInf"
| "float_add _ PosInf = PosInf"
| "float_add NegInf _ = NegInf"
| "float_add _ NegInf = NegInf"
| "float_add NegZero b = b"
| "float_add a NegZero = a"
| "float_add (Fin m1 e1) (Fin m2 e2) =
     (let E = min e1 e2
      in round_double (m1 * 2 ^ nat (e1 - E) + m2 * 2 ^ nat (e2 - E)) E)"

text \<open>
  The conversion of an \<^verbatim>\<open>int\<close> operand to a float, which raises
  \<^verbatim>\<open>OverflowError\<close> when the integer is beyond the float range.
\<close>

definition int_to_float :: "int \<Rightarrow> pyerr + pyfloat" where
  "int_to_float n =
     (case round_double n 0 of
        PosInf \<Rightarrow> Inl OverflowError
      | NegInf \<Rightarrow> Inl OverflowError
      | f \<Rightarrow> Inr f)"

subsection \<open>The operations the script applies to the document\<close>

definition OFFSET :: int where
  "OFFSET = 2"

text \<open>\<^verbatim>\<open>obj[key]\<close> with a string key: only a dict can be subscripted with one.\<close>

fun getitem :: "json \<Rightarrow> string \<Rightarrow> pyerr + json" where
  "getitem (JDict kvs) k =
     (case map_of kvs k of None \<Rightarrow> Inl (KeyError k) | Some v \<Rightarrow> Inr v)"
| "getitem _ k = Inl TypeError"

text \<open>
  \<^verbatim>\<open>d[key] = v\<close> on the items of a dict: an existing key keeps its place, a new
  key goes last.
\<close>

fun dict_set :: "string \<Rightarrow> json \<Rightarrow> (string \<times> json) list \<Rightarrow> (string \<times> json) list" where
  "dict_set k v [] = [(k, v)]"
| "dict_set k v ((k', v') # kvs) =
     (if k' = k then (k, v) # kvs else (k', v') # dict_set k v kvs)"

fun setitem :: "json \<Rightarrow> string \<Rightarrow> json \<Rightarrow> pyerr + json" where
  "setitem (JDict kvs) k v = Inr (JDict (dict_set k v kvs))"
| "setitem _ k v = Inl TypeError"

text \<open>
  \<^verbatim>\<open>v + n\<close> for the integer \<open>n\<close>, as \<^verbatim>\<open>+=\<close> evaluates it: exact on an
  \<^verbatim>\<open>int\<close>; a \<^verbatim>\<open>bool\<close> is an \<^verbatim>\<open>int\<close> subclass and counts as 0 or 1; on a
  \<^verbatim>\<open>float\<close> the integer is converted and the sum rounded; every other operand
  raises \<^verbatim>\<open>TypeError\<close>.
\<close>

fun py_add :: "json \<Rightarrow> int \<Rightarrow> pyerr + json" where
  "py_add (JInt i) n = Inr (JInt (i + n))"
| "py_add (JBool b) n = Inr (JInt ((if b then 1 else 0) + n))"
| "py_add (JFloat f) n =
     (case int_to_float n of
        Inl e \<Rightarrow> Inl e
      | Inr g \<Rightarrow> Inr (JFloat (float_add f g)))"
| "py_add _ n = Inl TypeError"

text \<open>\<^verbatim>\<open>frame[key] += n\<close>: read the item, add, store the sum under the same key.\<close>

definition iadd_item :: "json \<Rightarrow> string \<Rightarrow> int \<Rightarrow> pyerr + json" where
  "iadd_item frame k n =
     (case getitem frame k of
        Inl e \<Rightarrow> Inl e
      | Inr v \<Rightarrow>
          (case py_add v n of
             Inl e \<Rightarrow> Inl e
           | Inr v' \<Rightarrow> setitem frame k v'))"

text \<open>
  The body of the loop, lines 9 to 11.  In the script \<^verbatim>\<open>frame\<close> is the very object
  stored in \<^verbatim>\<open>frame_data\<close> (a decoded document shares no object between two
  places), so the updated frame is put back under \<^verbatim>\<open>"frame"\<close>.
\<close>

definition loop_body :: "json \<Rightarrow> pyerr + json" where
  "loop_body frame_data =
     (case getitem frame_data ''frame'' of
        Inl e \<Rightarrow> Inl e
      | Inr frame \<Rightarrow>
          (case iadd_item frame ''x'' OFFSET of
             Inl e \<Rightarrow> Inl e
           | Inr frame1 \<Rightarrow>
               (case iadd_item frame1 ''y'' OFFSET of
                  Inl e \<Rightarrow> Inl e
                | Inr frame2 \<Rightarrow> setitem frame_data ''frame'' frame2)))"

text \<open>
  The \<^verbatim>\<open>for\<close> loop over the values of the frames dict, in order; the first raise
  ends it.
\<close>

fun frames_loop :: "(string \<times> json) list \<Rightarrow> pyerr + (string \<times> json) list" where
  "frames_loop [] = Inr []"
| "frames_loop ((fid, frame_data) # rest) =
     (case loop_body frame_data of
        Inl e \<Rightarrow> Inl e
      | Inr frame_data' \<Rightarrow>
          (case frames_loop rest of
             Inl e \<Rightarrow> Inl e
           | Inr rest' \<Rightarrow> Inr ((fid, frame_data') # rest')))"

text \<open>\<^verbatim>\<open>obj.values()\<close>: only a dict has the method.\<close>

fun dict_items :: "json \<Rightarrow> pyerr + (string \<times> json) list" where
  "dict_items (JDict kvs) = Inr kvs"
| "dict_items _ = Inl AttributeError"

text \<open>Lines 8 to 11: the document after the loop, or the exception that ended it.\<close>

definition fix_frames :: "json \<Rightarrow> pyerr + json" where
  "fix_frames data =
     (case getitem data ''frames'' of
        Inl e \<Rightarrow> Inl e
      | Inr frames \<Rightarrow>
          (case dict_items frames of
             Inl e \<Rightarrow> Inl e
           | Inr kvs \<Rightarrow>
               (case frames_loop kvs of
                  Inl e \<Rightarrow> Inl e
                | Inr kvs' \<Rightarrow> setitem data ''frames'' (JDict kvs'))))"

subsection \<open>The world the script runs in\<close>

text \<open>
  The \<^verbatim>\<open>json\<close> module is not part of the repository: its decoder and encoder
  are parameters.  \<open>json_load enc bytes\<close> stands for \<^verbatim>\<open>json.load\<close> on a file
  opened for reading with the encoding \<open>enc\<close>; it returns the document or the
  exception raised.  \<open>json_dump enc indent obj\<close> is the text that
  \<^verbatim>\<open>json.dump(obj, f, indent=indent)\<close> leaves in a file opened for writing with
  the encoding \<open>enc\<close>; the encoder is taken to succeed on every decoded document, and
  the write to the file system to succeed.
\<close>

record json_lib =
  json_load :: "string \<Rightarrow> string \<Rightarrow> pyerr + json"
  json_dump :: "string \<Rightarrow> int \<Rightarrow> json \<Rightarrow> string"

text \<open>
  What an observer sees of a run, in the order it happens: a file written, a line printed
  on standard output, the report of an uncaught exception on standard error.
\<close>

datatype event =
    Wrote string string
  | Printed string
  | Traceback pyerr

record world =
  files :: "string \<rightharpoonup> string"
  trace :: "event list"
  argv :: "string list"
  environ :: "string \<rightharpoonup> string"




text \<open>\<^verbatim>\<open>open(path, "r")\<close> and reading the file to its end.\<close>

definition open_read :: "string \<Rightarrow> world \<Rightarrow> pyerr + string" where
  "open_read path w =
     (case files w path of None \<Rightarrow> Inl FileNotFoundError | Some bytes \<Rightarrow> Inr bytes)"

text \<open>\<^verbatim>\<open>open(path, "w")\<close>, writing the text and closing: the file is created or replaced.\<close>

definition write_file :: "string \<Rightarrow> string \<Rightarrow> world \<Rightarrow> world" where
  "write_file path text w =
     w\<lparr>files := (files w)(path \<mapsto> text), trace := trace w @ [Wrote path text]\<rparr>"

definition print_line :: "string \<Rightarrow> world \<Rightarrow> world" where
  "print_line s w = w\<lparr>trace := trace w @ [Printed s]\<rparr>"

text \<open>An exception nobody catches: the interpreter reports it and the process ends.\<close>

definition uncaught :: "pyerr \<Rightarrow> world \<Rightarrow> (pyerr + unit) \<times> world" where
  "uncaught e w = (Inl e, w\<lparr>trace := trace w @ [Traceback e]\<rparr>)"

text \<open>The line of the last statement, the check mark being three bytes in UTF-8.\<close>

definition MSG :: string where
  "MSG = [CHR 0xE2, CHR 0x9C, CHR 0x85] @ '' JSON corrigido (padding apenas nas bordas)''"

text \<open>The script, top to bottom.\<close>

definition main :: "json_lib \<Rightarrow> world \<Rightarrow> (pyerr + unit) \<times> world" where
  "main lib w =
     (case open_read ''collectables.json'' w of
        Inl e \<Rightarrow> uncaught e w
      | Inr bytes \<Rightarrow>
          (case json_load lib ''utf-8'' bytes of
             Inl e \<Rightarrow> uncaught e w
           | Inr data \<Rightarrow>
               (case fix_frames data of
                  Inl e \<Rightarrow> uncaught e w
                | Inr data' \<Rightarrow>
                    (Inr (),
                     print_line MSG
                       (write_file ''collectables_padded.json''
                          (json_dump lib ''utf-8'' 2 data') w)))))"

subsection \<open>The vocabulary of the specification\<close>

text \<open>A JSON number is decoded to an \<^verbatim>\<open>int\<close> or a \<^verbatim>\<open>float\<close>.\<close>

fun is_number :: "json \<Rightarrow> bool" where
  "is_number (JInt i) = True"
| "is_number (JFloat f) = True"
| "is_number _ = False"

text \<open>The values to which Python adds an integer: the numbers and the two booleans.\<close>

fun addable :: "json \<Rightarrow> bool" where
  "addable (JInt i) = True"
| "addable (JFloat f) = True"
| "addable (JBool b) = True"
| "addable _ = False"

text \<open>
  A coordinate plus 2 and plus 4: exact on an integer, the rounded binary64 sum with
  \<open>2.0\<close> and with \<open>4.0\<close> on a float.
\<close>

fun plus_two :: "json \<Rightarrow> json" where
  "plus_two (JInt i) = JInt (i + 2)"
| "plus_two (JFloat f) = JFloat (float_add f (Fin 1 1))"
| "plus_two v = v"

fun plus_four :: "json \<Rightarrow> json" where
  "plus_four (JInt i) = JInt (i + 4)"
| "plus_four (JFloat f) = JFloat (float_add f (Fin 1 2))"
| "plus_four v = v"

text \<open>The frame entries of a document, and a coordinate of a frame entry.\<close>

definition frames_of :: "json \<Rightarrow> (string \<times> json) list" where
  "frames_of data = (case getitem data ''frames'' of Inr (JDict kvs) \<Rightarrow> kvs | _ \<Rightarrow> [])"

definition coord :: "string \<Rightarrow> json \<Rightarrow> json option" where
  "coord c frame_data =
     (case getitem frame_data ''frame'' of
        Inl e \<Rightarrow> None
      | Inr frame \<Rightarrow> (case getitem frame c of Inl e \<Rightarrow> None | Inr v \<Rightarrow> Some v))"

text \<open>Every frame id of a document with its two coordinates.\<close>

definition coords_of :: "json \<Rightarrow> (string \<times> json option \<times> json option) list" where
  "coords_of data = map (\<lambda>(fid, e). (fid, coord ''x'' e, coord ''y'' e)) (frames_of data)"

text \<open>
  The shape of an Atlas Document: an object whose \<^verbatim>\<open>"frames"\<close> is an object, every
  entry of it holding a \<^verbatim>\<open>"frame"\<close> object with an \<^verbatim>\<open>x\<close> and a \<^verbatim>\<open>y\<close> that are
  \<open>numeric\<close>.  With \<open>is_number\<close> this is the valid document of the specification; with
  \<open>addable\<close> it is what the script accepts.
\<close>

definition entry_ok :: "(json \<Rightarrow> bool) \<Rightarrow> json \<Rightarrow> bool" where
  "entry_ok numeric frame_data =
     (case coord ''x'' frame_data of
        None \<Rightarrow> False
      | Some vx \<Rightarrow>
          (case coord ''y'' frame_data of
             None \<Rightarrow> False
           | Some vy \<Rightarrow> numeric vx \<and> numeric vy))"

definition atlas_ok :: "(json \<Rightarrow> bool) \<Rightarrow> json \<Rightarrow> bool" where
  "atlas_ok numeric data =
     (case getitem data ''frames'' of
        Inr (JDict kvs) \<Rightarrow> list_all (\<lambda>(fid, e). entry_ok numeric e) kvs
      | _ \<Rightarrow> False)"

definition valid_atlas :: "json \<Rightarrow> bool" where
  "valid_atlas = atlas_ok is_number"


text \<open>The document the script reads, or the exception raised on the way to it.\<close>

definition input_document :: "json_lib \<Rightarrow> world \<Rightarrow> pyerr + json" where
  "input_document lib w =
     (case open_read ''collectables.json'' w of
        Inl e \<Rightarrow> Inl e
      | Inr bytes \<Rightarrow> json_load lib ''utf-8'' bytes)"

text \<open>The transformation applied to its own output.\<close>

definition twice :: "json \<Rightarrow> pyerr + json" where
  "twice data = (case fix_frames data of Inl e \<Rightarrow> Inl e | Inr data' \<Rightarrow> fix_frames data')"

subsection \<open>Concrete files for the runs evaluated below\<close>

text \<open>
  A finite excerpt of the \<^verbatim>\<open>json\<close> module for the encoding \<^verbatim>\<open>utf-8\<close> and the
  indent 2: a table of file texts with the documents they decode to, every other text
  being rejected, and a table of documents with the text they are dumped as.
\<close>

definition table_lib :: "(string \<times> json) list \<Rightarrow> (json \<times> string) list \<Rightarrow> json_lib" where
  "table_lib decoded dumped =
     \<lparr>json_load = (\<lambda>enc bytes.
        if enc = ''utf-8''
        then (case map_of decoded bytes of None \<Rightarrow> Inl JSONDecodeError | Some d \<Rightarrow> Inr d)
        else Inl UnicodeDecodeError),
      json_dump = (\<lambda>enc indent d.
        if enc = ''utf-8'' \<and> indent = 2
        then (case map_of dumped d of None \<Rightarrow> [] | Some t \<Rightarrow> t)
        else [])\<rparr>"

definition join_lines :: "string list \<Rightarrow> string" where
  "join_lines ls = concat (map (\<lambda>l. l @ [CHR 0x0A]) (butlast ls)) @ last ls"

text \<open>An atlas of two frames, with keys the script does not know.\<close>

definition atlas_in :: json where
  "atlas_in =
     JDict [(''frames'', JDict
              [(''coin.png'', JDict
                 [(''frame'', JDict [(''x'', JInt 0), (''y'', JInt 16),
                                     (''w'', JInt 16), (''h'', JInt 16)]),
                  (''rotated'', JBool False)]),
               (''gem.png'', JDict
                 [(''frame'', JDict [(''x'', JInt (- 3)), (''y'', JFloat (Fin 1 (- 1)))])])]),
            (''meta'', JDict [(''scale'', JStr ''1'')])]"

definition atlas_out :: json where
  "atlas_out =
     JDict [(''frames'', JDict
              [(''coin.png'', JDict
                 [(''frame'', JDict [(''x'', JInt 2), (''y'', JInt 18),
                                     (''w'', JInt 16), (''h'', JInt 16)]),
                  (''rotated'', JBool False)]),
               (''gem.png'', JDict
                 [(''frame'', JDict [(''x'', JInt (- 1)), (''y'', JFloat (Fin 5 (- 1)))])])]),
            (''meta'', JDict [(''scale'', JStr ''1'')])]"

definition atlas_text :: string where
  \<open>atlas_text = ''{"frames": {"coin.png": {"frame": {"x": 0, "y": 16, "w": 16, "h": 16}, "rotated": false}, "gem.png": {"frame": {"x": -3, "y": 0.5}}}, "meta": {"scale": "1"}}''\<close>

definition atlas_out_text :: string where
  \<open>atlas_out_text = join_lines
     [''{'',
      ''  "frames": {'',
      ''    "coin.png": {'',
      ''      "frame": {'',
      ''        "x": 2,'',
      ''        "y": 18,'',
      ''        "w": 16,'',
      ''        "h": 16'',
      ''      },'',
      ''      "rotated": false'',
      ''    },'',
      ''    "gem.png": {'',
      ''      "frame": {'',
      ''        "x": -1,'',
      ''        "y": 2.5'',
      ''      }'',
      ''    }'',
      ''  },'',
      ''  "meta": {'',
      ''    "scale": "1"'',
      ''  }'',
      ''}'']\<close>

text \<open>An atlas without frames.\<close>

definition empty_in :: json where
  "empty_in = JDict [(''frames'', JDict []), (''meta'', JDict [(''app'', JStr ''site'')])]"

definition empty_text :: string where
  \<open>empty_text = ''{"frames": {}, "meta": {"app": "site"}}''\<close>

definition empty_out_text :: string where
  \<open>empty_out_text = join_lines
     [''{'',
      ''  "frames": {},'',
      ''  "meta": {'',
      ''    "app": "site"'',
      ''  }'',
      ''}'']\<close>

text \<open>A well-formed entry followed by one without \<^verbatim>\<open>y\<close>.\<close>

definition broken_in :: json where
  "broken_in =
     JDict [(''frames'', JDict
              [(''a'', JDict [(''frame'', JDict [(''x'', JInt 1), (''y'', JInt 1)])]),
               (''b'', JDict [(''frame'', JDict [(''x'', JInt 5)])])])]"

definition broken_text :: string where
  \<open>broken_text = ''{"frames": {"a": {"frame": {"x": 1, "y": 1}}, "b": {"frame": {"x": 5}}}}''\<close>

text \<open>An entry whose \<^verbatim>\<open>x\<close> is the JSON literal \<^verbatim>\<open>true\<close>.\<close>

definition bool_in :: json where
  "bool_in =
     JDict [(''frames'', JDict
              [(''a'', JDict [(''frame'', JDict [(''x'', JBool True), (''y'', JInt 0)])])])]"

definition bool_out :: json where
  "bool_out =
     JDict [(''frames'', JDict
              [(''a'', JDict [(''frame'', JDict [(''x'', JInt 3), (''y'', JInt 2)])])])]"

definition bool_text :: string where
  \<open>bool_text = ''{"frames": {"a": {"frame": {"x": true, "y": 0}}}}''\<close>

definition bool_out_text :: string where
  \<open>bool_out_text = join_lines
     [''{'',
      ''  "frames": {'',
      ''    "a": {'',
      ''      "frame": {'',
      ''        "x": 3,'',
      ''        "y": 2'',
      ''      }'',
      ''    }'',
      ''  }'',
      ''}'']\<close>

text \<open>
  An entry whose \<^verbatim>\<open>x\<close> is the float \<^verbatim>\<open>18014398509481984.0\<close>, that is
  \<open>2 ^ 54\<close>, where neighbouring floats are 4 apart.
\<close>

definition big_in :: json where
  "big_in =
     JDict [(''frames'', JDict
              [(''a'', JDict [(''frame'', JDict [(''x'', JFloat (Fin 1 54)), (''y'', JInt 7)])])])]"

definition big_twice :: json where
  "big_twice =
     JDict [(''frames'', JDict
              [(''a'', JDict [(''frame'', JDict [(''x'', JFloat (Fin 1 54)), (''y'', JInt 11)])])])]"

text \<open>
  Coordinates of every kind of number: zero, negative, beyond 64 bits, not an integer,
  and a float near the top of the float range.
\<close>

definition wide_in :: json where
  "wide_in =
     JDict [(''frames'', JDict
              [(''a'', JDict [(''frame'', JDict
                 [(''x'', JInt 0), (''y'', JInt (- 7))])]),
               (''b'', JDict [(''frame'', JDict
                 [(''x'', JInt 10000000000000000000000000000000000000000),
                  (''y'', JFloat (Fin 3 (- 2)))])]),
               (''c'', JDict [(''frame'', JDict
                 [(''x'', JFloat (Fin 1 1000)), (''y'', JFloat (Fin (- 1) 1))])])])]"

definition sample_lib :: json_lib where
  "sample_lib =
     table_lib
       [(atlas_text, atlas_in), (empty_text, empty_in), (broken_text, broken_in),
        (bool_text, bool_in)]
       [(atlas_out, atlas_out_text), (empty_in, empty_out_text), (bool_out, bool_out_text)]"

text \<open>A working directory holding the given files, before the script has run.\<close>

definition world_of :: "(string \<times> string) list \<Rightarrow> world" where
  "world_of fs = \<lparr>files = map_of fs, trace = [], argv = [''fix_padding.py''], environ = Map.empty\<rparr>"

section \<open>Properties\<close>

subsection \<open>The items of a dict and the addition\<close>

lemma int_to_float_2: "int_to_float 2 = Inr (Fin 1 1)"
  by code_simp

lemma py_add_OFFSET_Inr:
  "(\<exists>v'. py_add v OFFSET = Inr v') \<longleftrightarrow> addable v"
  by (cases v) (simp_all add: OFFSET_def int_to_float_2)

lemma py_add_number: "is_number v \<Longrightarrow> py_add v OFFSET = Inr (plus_two v)"
  by (cases v) (simp_all add: OFFSET_def int_to_float_2)

lemma map_of_dict_set: "map_of (dict_set k v kvs) = (map_of kvs)(k \<mapsto> v)"
  by (induction kvs) (auto simp: fun_eq_iff)


lemma getitem_Inr:
  "getitem d k = Inr v \<longleftrightarrow> (\<exists>kvs. d = JDict kvs \<and> map_of kvs k = Some v)"
  by (cases d) (auto split: option.splits)

lemma coord_Some:
  "coord c e = Some v \<longleftrightarrow>
     (\<exists>ekv box. e = JDict ekv \<and> map_of ekv ''frame'' = Some (JDict box) \<and> map_of box c = Some v)"
  unfolding coord_def by (auto simp: getitem_Inr split: sum.splits)

lemma loop_body_Inr:
  "loop_body e = Inr e' \<longleftrightarrow>
     (\<exists>ekv box vx vy vx' vy'.
        e = JDict ekv \<and> map_of ekv ''frame'' = Some (JDict box) \<and>
        map_of box ''x'' = Some vx \<and> py_add vx OFFSET = Inr vx' \<and>
        map_of box ''y'' = Some vy \<and> py_add vy OFFSET = Inr vy' \<and>
        e' = JDict (dict_set ''frame''
                     (JDict (dict_set ''y'' vy' (dict_set ''x'' vx' box))) ekv))"
proof (cases e)
  case (JDict ekv)
  show ?thesis
  proof (cases "map_of ekv ''frame''")
    case None
    with JDict show ?thesis by (simp add: loop_body_def)
  next
    case (Some frame)
    show ?thesis
    proof (cases frame)
      case (JDict box)
      with Some \<open>e = JDict ekv\<close> show ?thesis
        by (auto simp: loop_body_def iadd_item_def map_of_dict_set
                 split: option.splits sum.splits)
    qed (use Some JDict in \<open>simp_all add: loop_body_def iadd_item_def\<close>)
  qed
qed (simp_all add: loop_body_def)


lemma loop_body_ok_iff: "(\<exists>e'. loop_body e = Inr e') \<longleftrightarrow> entry_ok addable e"
proof
  assume "\<exists>e'. loop_body e = Inr e'"
  then obtain ekv box vx vy vx' vy' where
    "e = JDict ekv" "map_of ekv ''frame'' = Some (JDict box)"
    "map_of box ''x'' = Some vx" "py_add vx OFFSET = Inr vx'"
    "map_of box ''y'' = Some vy" "py_add vy OFFSET = Inr vy'"
    unfolding loop_body_Inr by blast
  moreover from this have "addable vx" "addable vy"
    using py_add_OFFSET_Inr by blast+
  ultimately show "entry_ok addable e"
    by (simp add: entry_ok_def coord_def)
next
  assume "entry_ok addable e"
  then obtain vx vy where c: "coord ''x'' e = Some vx" "coord ''y'' e = Some vy"
    and a: "addable vx" "addable vy"
    by (auto simp: entry_ok_def split: option.splits)
  from a obtain vx' vy' where "py_add vx OFFSET = Inr vx'" "py_add vy OFFSET = Inr vy'"
    using py_add_OFFSET_Inr by blast
  with c show "\<exists>e'. loop_body e = Inr e'"
    unfolding loop_body_Inr coord_Some by fastforce
qed

lemma frames_loop_Inr:
  "frames_loop kvs = Inr kvs' \<longleftrightarrow>
     list_all2 (\<lambda>(fid, e) (fid', e'). fid' = fid \<and> loop_body e = Inr e') kvs kvs'"
proof (induction kvs arbitrary: kvs')
  case Nil
  then show ?case by auto
next
  case (Cons p kvs)
  obtain fid e where p: "p = (fid, e)" by (cases p)
  let ?R = "\<lambda>(fid, e) (fid', e'). fid' = fid \<and> loop_body e = Inr e'"
  show ?case
  proof (cases "loop_body e")
    case (Inl err)
    then show ?thesis
      unfolding p by (auto simp: list_all2_Cons1)
  next
    case body: (Inr e1)
    show ?thesis
    proof (cases "frames_loop kvs")
      case (Inl err)
      then have "\<not> list_all2 ?R kvs zs" for zs
        using Cons.IH [of zs] by simp
      with Inl body show ?thesis
        unfolding p by (auto simp: list_all2_Cons1)
    next
      case (Inr rest)
      then have "list_all2 ?R kvs zs \<longleftrightarrow> zs = rest" for zs
        using Cons.IH [of zs] by auto
      with Inr body show ?thesis
        unfolding p by (auto simp: list_all2_Cons1)
    qed
  qed
qed

lemma frames_loop_ok_iff:
  "(\<exists>kvs'. frames_loop kvs = Inr kvs') \<longleftrightarrow> list_all (\<lambda>(fid, e). entry_ok addable e) kvs"
proof (induction kvs)
  case Nil
  then show ?case by simp
next
  case (Cons p kvs)
  obtain fid e where p: "p = (fid, e)" by (cases p)
  have "(\<exists>kvs'. frames_loop (p # kvs) = Inr kvs') \<longleftrightarrow>
        (\<exists>e'. loop_body e = Inr e') \<and> (\<exists>kvs'. frames_loop kvs = Inr kvs')"
    unfolding p by (auto split: sum.splits)
  then show ?case
    by (simp add: Cons.IH loop_body_ok_iff p)
qed

lemma fix_frames_Inr:
  "fix_frames d = Inr d' \<longleftrightarrow>
     (\<exists>kvs fs fs'. d = JDict kvs \<and> map_of kvs ''frames'' = Some (JDict fs) \<and>
        frames_loop fs = Inr fs' \<and> d' = JDict (dict_set ''frames'' (JDict fs') kvs))"
proof (cases d)
  case (JDict kvs)
  show ?thesis
  proof (cases "map_of kvs ''frames''")
    case None
    with JDict show ?thesis by (simp add: fix_frames_def)
  next
    case (Some frames)
    show ?thesis
    proof (cases frames)
      case (JDict fs)
      with Some \<open>d = JDict kvs\<close> show ?thesis
        by (auto simp: fix_frames_def split: sum.splits)
    qed (use Some JDict in \<open>simp_all add: fix_frames_def\<close>)
  qed
qed (simp_all add: fix_frames_def)

lemma fix_frames_ok_iff: "(\<exists>d'. fix_frames d = Inr d') \<longleftrightarrow> atlas_ok addable d"
proof -
  have "(\<exists>d'. fix_frames d = Inr d') \<longleftrightarrow>
        (\<exists>kvs fs. d = JDict kvs \<and> map_of kvs ''frames'' = Some (JDict fs) \<and>
           (\<exists>fs'. frames_loop fs = Inr fs'))"
    unfolding fix_frames_Inr by blast
  also have "\<dots> \<longleftrightarrow> atlas_ok addable d"
    unfolding frames_loop_ok_iff atlas_ok_def
    by (cases d) (auto split: option.splits json.splits)
  finally show ?thesis .
qed

lemma is_number_addable: "is_number v \<Longrightarrow> addable v"
  by (cases v) simp_all

lemma atlas_ok_mono:
  assumes "atlas_ok P d" and "\<And>v. P v \<Longrightarrow> Q v"
  shows "atlas_ok Q d"
proof -
  have "entry_ok Q e" if "entry_ok P e" for e
    using that assms(2) by (auto simp: entry_ok_def split: option.splits)
  with assms(1) show ?thesis
    by (auto simp: atlas_ok_def list_all_iff split: sum.splits json.splits)
qed

lemma frames_of_dict_set:
  "frames_of (JDict (dict_set ''frames'' (JDict fs') kvs)) = fs'"
  by (simp add: frames_of_def map_of_dict_set)

lemma frames_of_JDict:
  "map_of kvs ''frames'' = Some (JDict fs) \<Longrightarrow> frames_of (JDict kvs) = fs"
  by (simp add: frames_of_def)

subsection \<open>The script as a whole\<close>





lemma loop_body_coords:
  assumes "loop_body e = Inr e'" and "entry_ok is_number e"
  shows "coord ''x'' e' = map_option plus_two (coord ''x'' e) \<and>
         coord ''y'' e' = map_option plus_two (coord ''y'' e)"
proof -
  from assms(1) obtain ekv box vx vy vx' vy' where
    e: "e = JDict ekv" "map_of ekv ''frame'' = Some (JDict box)"
    and x: "map_of box ''x'' = Some vx" "py_add vx OFFSET = Inr vx'"
    and y: "map_of box ''y'' = Some vy" "py_add vy OFFSET = Inr vy'"
    and e': "e' = JDict (dict_set ''frame''
                     (JDict (dict_set ''y'' vy' (dict_set ''x'' vx' box))) ekv)"
    unfolding loop_body_Inr by blast
  have cx: "coord ''x'' e = Some vx" and cy: "coord ''y'' e = Some vy"
    using e x y by (simp_all add: coord_def)
  with assms(2) have "is_number vx" "is_number vy"
    by (simp_all add: entry_ok_def)
  with x y have "vx' = plus_two vx" "vy' = plus_two vy"
    by (simp_all add: py_add_number)
  then show ?thesis
    using cx cy by (simp add: e' coord_def map_of_dict_set)
qed

lemma fix_frames_valid:
  assumes "valid_atlas data"
  obtains data' where "fix_frames data = Inr data'"
    and "list_all2
      (\<lambda>(fid, e) (fid', e'). fid' = fid \<and>
         coord ''x'' e' = map_option plus_two (coord ''x'' e) \<and>
         coord ''y'' e' = map_option plus_two (coord ''y'' e))
      (frames_of data) (frames_of data')"
proof -
  from assms have "atlas_ok addable data"
    unfolding valid_atlas_def by (rule atlas_ok_mono) (rule is_number_addable)
  then obtain data' where fixed: "fix_frames data = Inr data'"
    using fix_frames_ok_iff by blast
  then obtain kvs fs fs' where d: "data = JDict kvs" "map_of kvs ''frames'' = Some (JDict fs)"
    and loop: "frames_loop fs = Inr fs'"
    and d': "data' = JDict (dict_set ''frames'' (JDict fs') kvs)"
    unfolding fix_frames_Inr by blast
  have fr: "frames_of data = fs" "frames_of data' = fs'"
    using d d' by (simp_all add: frames_of_JDict frames_of_dict_set)
  from assms d have ok: "\<forall>p \<in> set fs. entry_ok is_number (snd p)"
    by (auto simp: valid_atlas_def atlas_ok_def list_all_iff)
  from loop have
    "list_all2 (\<lambda>(fid, e) (fid', e'). fid' = fid \<and> loop_body e = Inr e') fs fs'"
    by (simp add: frames_loop_Inr)
  then have "list_all2
      (\<lambda>(fid, e) (fid', e'). fid' = fid \<and>
         coord ''x'' e' = map_option plus_two (coord ''x'' e) \<and>
         coord ''y'' e' = map_option plus_two (coord ''y'' e)) fs fs'"
    by (rule list.rel_mono_strong) (use ok loop_body_coords in fastforce)
  with fixed fr that show thesis
    by simp
qed




subsection \<open>Claims about the shifted coordinates\<close>







subsection \<open>Claims about what the transformation leaves alone\<close>



lemma main_by_input:
  "main lib w =
     (case input_document lib w of
        Inl e \<Rightarrow> uncaught e w
      | Inr data \<Rightarrow>
          (case fix_frames data of
             Inl e \<Rightarrow> uncaught e w
           | Inr data' \<Rightarrow>
               (Inr (),
                print_line MSG
                  (write_file ''collectables_padded.json''
                     (json_dump lib ''utf-8'' 2 data') w))))"
  by (simp add: main_def input_document_def split: sum.splits)


lemma input_document_world_of:
  "input_document lib (world_of ((''collectables.json'', bytes) # fs)) =
     json_load lib ''utf-8'' bytes"
  by (simp add: input_document_def open_read_def world_of_def)



lemma sample_load_bool: "json_load sample_lib ''utf-8'' bool_text = Inr bool_in"
  by (simp add: sample_lib_def table_lib_def atlas_text_def empty_text_def broken_text_def
      bool_text_def)



lemma sample_dump_bool: "json_dump sample_lib ''utf-8'' 2 bool_out = bool_out_text"
  by (simp add: sample_lib_def table_lib_def atlas_out_def empty_in_def bool_out_def)




lemma fix_bool_in: "fix_frames bool_in = Inr bool_out"
  by code_simp




lemma run_bool:
  "main sample_lib (world_of ((''collectables.json'', bool_text) # fs)) =
     (Inr (), print_line MSG (write_file ''collectables_padded.json'' bool_out_text
        (world_of ((''collectables.json'', bool_text) # fs))))"
  by (simp add: main_by_input input_document_world_of sample_load_bool fix_bool_in
      sample_dump_bool)


subsection \<open>Claims about the files and the console\<close>







lemma valid_wide_in: "valid_atlas wide_in"
  by code_simp

subsection \<open>Claims about totality, determinism and the fixed interface\<close>

text \<open>
  Claim C9.  On a document whose \<^verbatim>\<open>"frames"\<close> is an object and whose every entry
  has a \<^verbatim>\<open>"frame"\<close> object with numeric \<^verbatim>\<open>x\<close> and \<^verbatim>\<open>y\<close>, whatever the
  numbers, the transformation returns a document and never an exception, and every
  coordinate that is an integer \<open>i\<close> becomes the integer \<open>i + 2\<close> exactly: Python
  integers are unbounded, so nothing overflows and nothing is rounded.
\<close>
theorem offset_addition_never_fails:
  assumes "valid_atlas data"
  shows "(\<exists>data'. fix_frames data = Inr data' \<and>
            list_all2
              (\<lambda>(fid, e) (fid', e'). fid' = fid \<and>
                 (\<forall>c \<in> {''x'', ''y''}. \<forall>i. coord c e = Some (JInt i) \<longrightarrow>
                    coord c e' = Some (JInt (i + 2))))
              (frames_of data) (frames_of data')) \<and>
         (\<forall>e. fix_frames data \<noteq> Inl e)"
proof -
  from assms obtain data' where fixed: "fix_frames data = Inr data'"
    and shifted: "list_all2
      (\<lambda>(fid, e) (fid', e'). fid' = fid \<and>
         coord ''x'' e' = map_option plus_two (coord ''x'' e) \<and>
         coord ''y'' e' = map_option plus_two (coord ''y'' e))
      (frames_of data) (frames_of data')"
    by (rule fix_frames_valid)
  from shifted have "list_all2
      (\<lambda>(fid, e) (fid', e'). fid' = fid \<and>
         (\<forall>c \<in> {''x'', ''y''}. \<forall>i. coord c e = Some (JInt i) \<longrightarrow>
            coord c e' = Some (JInt (i + 2))))
      (frames_of data) (frames_of data')"
    by (rule list.rel_mono_strong) auto
  with fixed show ?thesis by auto
qed

theorem offset_addition_never_fails_witness:
  "valid_atlas wide_in \<and>
   (\<exists>data'. fix_frames wide_in = Inr data' \<and>
      list_all2
        (\<lambda>(fid, e) (fid', e'). fid' = fid \<and>
           (\<forall>c \<in> {''x'', ''y''}. \<forall>i. coord c e = Some (JInt i) \<longrightarrow>
              coord c e' = Some (JInt (i + 2))))
        (frames_of wide_in) (frames_of data')) \<and>
   (\<forall>e. fix_frames wide_in \<noteq> Inl e)"
  using offset_addition_never_fails [OF valid_wide_in] valid_wide_in by blast







end
